theory Spec2Isabelle
  imports Main
begin

section \<open>Renderer/AAPLShaderTypes.h: types and constants shared by the shaders and the C side\<close>

text \<open>
  The header holds no executable code: one macro, two structs and four enums. The
  embedding keeps each declaration as data, in the order of the source, and computes
  from it what a C compiler computes: the value of every enumerator, and the offset of
  every struct member together with the size of the struct.
\<close>

subsection \<open>The macro\<close>

text \<open>\<^verbatim>\<open>#define AAPLNumShapes 16\<close>\<close>

definition AAPLNumShapes :: int where
  "AAPLNumShapes = 16"

subsection \<open>Enumerations\<close>

text \<open>
  An enum declaration is the list of its enumerators, each with the initializer the
  source writes (\<open>Some k\<close> for \<^verbatim>\<open>name = k\<close>) or without one (\<open>None\<close>).
\<close>

type_synonym enum_decl = "(string \<times> int option) list"

text \<open>
  The values are assigned as C does: an enumerator with an initializer takes that value,
  one without takes the value of the enumerator before it plus one, and the first takes 0
  when it has no initializer. \<open>enumerators nxt e\<close> walks the declaration with \<open>nxt\<close>
  the value an enumerator without initializer would take.
\<close>

fun enumerators :: "int \<Rightarrow> enum_decl \<Rightarrow> (string \<times> int) list" where
  "enumerators nxt [] = []"
| "enumerators nxt ((name, init) # es) =
     (let v = (case init of None \<Rightarrow> nxt | Some k \<Rightarrow> k)
      in (name, v) # enumerators (v + 1) es)"

definition enum_values :: "enum_decl \<Rightarrow> (string \<times> int) list" where
  "enum_values e = enumerators 0 e"

definition enum_value :: "enum_decl \<Rightarrow> string \<Rightarrow> int option" where
  "enum_value e name = map_of (enum_values e) name"

text \<open>
  \<^verbatim>\<open>
  typedef enum AAPLBufferIndex
  {
      AAPLBufferIndexVertices = 0,
      AAPLBufferIndexUniforms = 1,
  } AAPLBufferIndex;
  \<close>
\<close>

definition AAPLBufferIndex :: enum_decl where
  "AAPLBufferIndex =
     [(''AAPLBufferIndexVertices'', Some 0),
      (''AAPLBufferIndexUniforms'', Some 1)]"

text \<open>
  \<^verbatim>\<open>
  typedef enum AAPLTextureIndex
  {
      AAPLTextureIndexBaseColor = 0,
  } AAPLTextureIndex;
  \<close>
\<close>

definition AAPLTextureIndex :: enum_decl where
  "AAPLTextureIndex =
     [(''AAPLTextureIndexBaseColor'', Some 0)]"

text \<open>
  \<^verbatim>\<open>
  typedef enum AAPLArgumentBufferBufferID
  {
      AAPLArgumentBufferIDICB,
      AAPLArgumentBufferIDUniformBuffer,
      AAPLArgumentBufferIDDepth,
      AAPLArgumentBufferIDVertexBuffer,
      AAPLArgumentBufferIDVertexNumBuffer = 50
  } AAPLArgumentBufferBufferID;
  \<close>
\<close>

definition AAPLArgumentBufferBufferID :: enum_decl where
  "AAPLArgumentBufferBufferID =
     [(''AAPLArgumentBufferIDICB'', None),
      (''AAPLArgumentBufferIDUniformBuffer'', None),
      (''AAPLArgumentBufferIDDepth'', None),
      (''AAPLArgumentBufferIDVertexBuffer'', None),
      (''AAPLArgumentBufferIDVertexNumBuffer'', Some 50)]"

text \<open>
  \<^verbatim>\<open>
  typedef enum AAPLVertexBufferIndex
  {
      AAPLVertexBufferIndexArgument
  }AAPLVertexBufferIndex;
  \<close>
\<close>

definition AAPLVertexBufferIndex :: enum_decl where
  "AAPLVertexBufferIndex =
     [(''AAPLVertexBufferIndexArgument'', None)]"

subsection \<open>Types of the platform header\<close>

text \<open>
  Modelled from the spec: the member types \<open>vector_float3\<close>, \<open>packed_float2\<close>,
  \<open>matrix_float4x4\<close> and \<open>matrix_float3x3\<close> are declared by the platform header
  \<^verbatim>\<open>#include <simd/simd.h>\<close>, which is not among the sources. The spec describes them
  as a vector of three single-precision floats, a tightly packed pair of two
  single-precision floats, and column-major matrices of four columns of four floats and of
  three columns of three floats.
\<close>

datatype simd_type = vector_float3 | packed_float2 | matrix_float4x4 | matrix_float3x3

text \<open>
  Modelled from the spec: the room a vector of three floats takes. The spec speaks of it
  both as 3 * 4 bytes (in the vertex) and as padded to 16 bytes (as a matrix column), so
  its size and its alignment are parameters of the layout.
\<close>

record abi =
  float3_size :: nat
  float3_align :: nat

text \<open>Modelled from the spec: a single-precision float has 4 bytes.\<close>

definition sizeof_float :: nat where
  "sizeof_float = 4"

text \<open>
  Modelled from the spec: the sizes of the four types. The packed pair is two floats with
  nothing between or after them; a matrix is its columns one after the other, four vectors
  of four floats or three vectors of three floats.
\<close>

fun sizeof :: "abi \<Rightarrow> simd_type \<Rightarrow> nat" where
  "sizeof abi vector_float3 = float3_size abi"
| "sizeof abi packed_float2 = 2 * sizeof_float"
| "sizeof abi matrix_float4x4 = 4 * (4 * sizeof_float)"
| "sizeof abi matrix_float3x3 = 3 * float3_size abi"

text \<open>
  Modelled from the spec: the alignments of the four types. The packed pair is aligned as
  a single float; a matrix is aligned as its column, and a column of four floats is
  16-byte aligned.
\<close>

fun alignof :: "abi \<Rightarrow> simd_type \<Rightarrow> nat" where
  "alignof abi vector_float3 = float3_align abi"
| "alignof abi packed_float2 = sizeof_float"
| "alignof abi matrix_float4x4 = 4 * sizeof_float"
| "alignof abi matrix_float3x3 = float3_align abi"

text \<open>
  In C the elements of an array lie one after the other without padding and each is
  aligned, so the size of a type is a multiple of its alignment; and three floats need at
  least 12 bytes.
\<close>

definition c_abi :: "abi \<Rightarrow> bool" where
  "c_abi abi = (0 < float3_align abi \<and> float3_align abi dvd float3_size abi
     \<and> 3 * sizeof_float \<le> float3_size abi)"

text \<open>
  The platform's own choice, the one the spec gives for a matrix column: a vector of
  three floats is padded to 16 bytes, the size and the alignment of a vector of four.
\<close>

definition simd_abi :: abi where
  "simd_abi = \<lparr>float3_size = 16, float3_align = 16\<rparr>"

subsection \<open>Structs\<close>

text \<open>A struct declaration is the list of its members, name and type, in source order.\<close>

type_synonym struct_decl = "(string \<times> simd_type) list"

text \<open>
  \<^verbatim>\<open>
  typedef struct
  {
      vector_float3 position;
      packed_float2 texcoord;
  } AAPLVertex;
  \<close>
\<close>

definition AAPLVertex :: struct_decl where
  "AAPLVertex =
     [(''position'', vector_float3),
      (''texcoord'', packed_float2)]"

text \<open>
  \<^verbatim>\<open>
  typedef struct
  {
      // Per Frame Uniforms
      vector_float3 cameraPos;

      // Per Mesh Uniforms
      matrix_float4x4 modelMatrix;
      matrix_float4x4 modelViewProjectionMatrix;
      matrix_float3x3 normalMatrix;

  } AAPLUniforms;
  \<close>
\<close>

definition AAPLUniforms :: struct_decl where
  "AAPLUniforms =
     [(''cameraPos'', vector_float3),
      (''modelMatrix'', matrix_float4x4),
      (''modelViewProjectionMatrix'', matrix_float4x4),
      (''normalMatrix'', matrix_float3x3)]"

text \<open>
  The layout a C compiler gives a struct: the members lie in declaration order, each at
  the first offset at or after the end of the member before it that is a multiple of its
  alignment; the struct is aligned as its most aligned member, and its size (the stride of
  an array of it) is the end of the last member rounded up to that alignment.
\<close>

definition align_up :: "nat \<Rightarrow> nat \<Rightarrow> nat" where
  "align_up n a = ((n + a - 1) div a) * a"

fun layout :: "abi \<Rightarrow> nat \<Rightarrow> struct_decl \<Rightarrow> (string \<times> nat) list" where
  "layout abi pos [] = []"
| "layout abi pos ((name, t) # ms) =
     (let off = align_up pos (alignof abi t)
      in (name, off) # layout abi (off + sizeof abi t) ms)"

fun struct_end :: "abi \<Rightarrow> nat \<Rightarrow> struct_decl \<Rightarrow> nat" where
  "struct_end abi pos [] = pos"
| "struct_end abi pos ((name, t) # ms) =
     struct_end abi (align_up pos (alignof abi t) + sizeof abi t) ms"

fun struct_alignof :: "abi \<Rightarrow> struct_decl \<Rightarrow> nat" where
  "struct_alignof abi [] = 1"
| "struct_alignof abi ((name, t) # ms) = max (alignof abi t) (struct_alignof abi ms)"

definition offsetof :: "abi \<Rightarrow> struct_decl \<Rightarrow> string \<Rightarrow> nat option" where
  "offsetof abi s name = map_of (layout abi 0 s) name"

definition struct_sizeof :: "abi \<Rightarrow> struct_decl \<Rightarrow> nat" where
  "struct_sizeof abi s = align_up (struct_end abi 0 s) (struct_alignof abi s)"

section \<open>Enumerator values\<close>

lemma AAPLBufferIndex_values:
  "enum_values AAPLBufferIndex =
     [(''AAPLBufferIndexVertices'', 0), (''AAPLBufferIndexUniforms'', 1)]"
  by (simp add: enum_values_def AAPLBufferIndex_def)

lemma AAPLTextureIndex_values:
  "enum_values AAPLTextureIndex = [(''AAPLTextureIndexBaseColor'', 0)]"
  by (simp add: enum_values_def AAPLTextureIndex_def)

lemma AAPLArgumentBufferBufferID_values:
  "enum_values AAPLArgumentBufferBufferID =
     [(''AAPLArgumentBufferIDICB'', 0),
      (''AAPLArgumentBufferIDUniformBuffer'', 1),
      (''AAPLArgumentBufferIDDepth'', 2),
      (''AAPLArgumentBufferIDVertexBuffer'', 3),
      (''AAPLArgumentBufferIDVertexNumBuffer'', 50)]"
  by (simp add: enum_values_def AAPLArgumentBufferBufferID_def)

lemma AAPLVertexBufferIndex_values:
  "enum_values AAPLVertexBufferIndex = [(''AAPLVertexBufferIndexArgument'', 0)]"
  by (simp add: enum_values_def AAPLVertexBufferIndex_def)

text \<open>
  C3. The argument-buffer field identifiers are ICB = 0, uniform buffer = 1, depth = 2,
  vertex buffer = 3 and vertex-count buffer = 50: the first four count up from zero, and
  the fifth is 50, not the value 4 that would follow the fourth.
\<close>

theorem AAPLArgumentBufferBufferID_numbering:
  "enum_value AAPLArgumentBufferBufferID ''AAPLArgumentBufferIDICB'' = Some 0
   \<and> enum_value AAPLArgumentBufferBufferID ''AAPLArgumentBufferIDUniformBuffer'' = Some 1
   \<and> enum_value AAPLArgumentBufferBufferID ''AAPLArgumentBufferIDDepth'' = Some 2
   \<and> enum_value AAPLArgumentBufferBufferID ''AAPLArgumentBufferIDVertexBuffer'' = Some 3
   \<and> enum_value AAPLArgumentBufferBufferID ''AAPLArgumentBufferIDVertexNumBuffer'' = Some 50
   \<and> map snd (enum_values AAPLArgumentBufferBufferID) = [0, 1, 2, 3, 50]
   \<and> map snd (take 4 (enum_values AAPLArgumentBufferBufferID)) = map int [0 ..< 4]
   \<and> enum_value AAPLArgumentBufferBufferID ''AAPLArgumentBufferIDVertexNumBuffer'' \<noteq> Some 4"
  by (simp add: enum_value_def AAPLArgumentBufferBufferID_values upt_conv_Cons)

text \<open>C4. The maximum number of shapes, \<open>AAPLNumShapes\<close>, is exactly 16.\<close>

theorem AAPLNumShapes_is_16:
  "AAPLNumShapes = 16"
  by (simp add: AAPLNumShapes_def)

text \<open>
  C5. The top-level buffer binding identifiers are vertices = 0 and uniforms = 1, and the
  enum has no other enumerator.
\<close>

theorem AAPLBufferIndex_numbering:
  "enum_value AAPLBufferIndex ''AAPLBufferIndexVertices'' = Some 0
   \<and> enum_value AAPLBufferIndex ''AAPLBufferIndexUniforms'' = Some 1
   \<and> map snd (enum_values AAPLBufferIndex) = [0, 1]"
  by (simp add: enum_value_def AAPLBufferIndex_values)

text \<open>
  C6. The texture binding registry has exactly one identifier, the base color, and its
  value is 0.
\<close>

theorem AAPLTextureIndex_single_entry:
  "enum_values AAPLTextureIndex = [(''AAPLTextureIndexBaseColor'', 0)]
   \<and> length AAPLTextureIndex = 1
   \<and> enum_value AAPLTextureIndex ''AAPLTextureIndexBaseColor'' = Some 0"
  by (simp add: enum_value_def AAPLTextureIndex_values) (simp add: AAPLTextureIndex_def)

text \<open>
  C7. \<open>AAPLVertexBufferIndexArgument\<close>, the vertex-stage index of the argument buffer,
  is 0: it is the first enumerator of \<open>AAPLVertexBufferIndex\<close> and the source gives it
  no initializer.
\<close>

theorem AAPLVertexBufferIndexArgument_is_0:
  "enum_value AAPLVertexBufferIndex ''AAPLVertexBufferIndexArgument'' = Some 0
   \<and> hd AAPLVertexBufferIndex = (''AAPLVertexBufferIndexArgument'', None)"
  by (simp add: enum_value_def AAPLVertexBufferIndex_values) (simp add: AAPLVertexBufferIndex_def)

text \<open>
  C10. In each of the four registries the enumerator values are pairwise distinct and
  none is negative; the 50 of the vertex-count identifier differs from each of the
  values 0 to 3 of the other argument-buffer identifiers.
\<close>

theorem registries_distinct_nonneg:
  "distinct (map snd (enum_values AAPLBufferIndex))
   \<and> list_all ((\<le>) 0) (map snd (enum_values AAPLBufferIndex))
   \<and> distinct (map snd (enum_values AAPLTextureIndex))
   \<and> list_all ((\<le>) 0) (map snd (enum_values AAPLTextureIndex))
   \<and> distinct (map snd (enum_values AAPLArgumentBufferBufferID))
   \<and> list_all ((\<le>) 0) (map snd (enum_values AAPLArgumentBufferBufferID))
   \<and> distinct (map snd (enum_values AAPLVertexBufferIndex))
   \<and> list_all ((\<le>) 0) (map snd (enum_values AAPLVertexBufferIndex))
   \<and> enum_value AAPLArgumentBufferBufferID ''AAPLArgumentBufferIDVertexNumBuffer'' = Some 50
   \<and> list_all ((\<noteq>) 50) (map snd (butlast (enum_values AAPLArgumentBufferBufferID)))"
  by (simp add: enum_value_def AAPLBufferIndex_values AAPLTextureIndex_values
      AAPLArgumentBufferBufferID_values AAPLVertexBufferIndex_values)

section \<open>Struct layout\<close>

lemma simd_abi_is_c_abi:
  "c_abi simd_abi"
  by (simp add: c_abi_def simd_abi_def sizeof_float_def)

lemma align_up_0:
  "align_up 0 a = 0"
  by (cases a) (simp_all add: align_up_def)

lemma AAPLVertex_offsets:
  "layout abi 0 AAPLVertex =
     [(''position'', 0), (''texcoord'', align_up (float3_size abi) 4)]"
  by (simp add: AAPLVertex_def align_up_0 sizeof_float_def)

lemma AAPLUniforms_offsets_16:
  assumes "float3_size abi = 16" and "float3_align abi = 16"
  shows "layout abi 0 AAPLUniforms =
     [(''cameraPos'', 0), (''modelMatrix'', 16),
      (''modelViewProjectionMatrix'', 80), (''normalMatrix'', 144)]"
  using assms by (simp add: AAPLUniforms_def align_up_def sizeof_float_def)

text \<open>
  Offset 12 for \<open>texcoord\<close> is what a 16-byte aligned vector of only 12 bytes would give,
  and no C type is laid out so.
\<close>

lemma texcoord_at_12_needs_12_byte_vector:
  "offsetof \<lparr>float3_size = 12, float3_align = 16\<rparr> AAPLVertex ''texcoord'' = Some 12
   \<and> \<not> c_abi \<lparr>float3_size = 12, float3_align = 16\<rparr>"
  by (simp add: offsetof_def AAPLVertex_offsets align_up_def c_abi_def)

text \<open>
  Whatever room a C compiler gives a vector of three floats, once that vector is 16-byte
  aligned \<open>texcoord\<close> cannot lie at offset 12: \<open>position\<close> then takes at least 16 bytes.
\<close>

lemma texcoord_offset_at_least_16:
  assumes "c_abi abi" and "float3_align abi = 16"
  shows "\<exists>off. offsetof abi AAPLVertex ''texcoord'' = Some off \<and> 16 \<le> off"
proof -
  from assms have d: "16 dvd float3_size abi" and p: "12 \<le> float3_size abi"
    by (simp_all add: c_abi_def sizeof_float_def)
  from d obtain k where k: "float3_size abi = 16 * k" ..
  with p have "1 \<le> k" by (cases k) simp_all
  with k have ge: "16 \<le> float3_size abi" by simp
  have "align_up (float3_size abi) 4 = float3_size abi"
    by (simp add: align_up_def k)
  with ge show ?thesis
    by (simp add: offsetof_def AAPLVertex_offsets)
qed

text \<open>
  C1, amended. In \<open>AAPLVertex\<close> the members are \<open>position\<close> then \<open>texcoord\<close>, and
  \<open>texcoord\<close> is a tightly packed pair of two floats (8 bytes). Where a vector of three
  floats is 16-byte aligned and so, its size being a multiple of its alignment, 16 bytes
  long, \<open>position\<close> is at offset 0, \<open>texcoord\<close> at offset 16, and the struct has 32 bytes.
\<close>

theorem AAPLVertex_layout:
  assumes "float3_align abi = 16" and "float3_size abi = 16"
  shows "map fst AAPLVertex = [''position'', ''texcoord'']
    \<and> map_of AAPLVertex ''texcoord'' = Some packed_float2
    \<and> sizeof abi packed_float2 = 2 * sizeof_float
    \<and> sizeof abi packed_float2 = 8
    \<and> offsetof abi AAPLVertex ''position'' = Some 0
    \<and> offsetof abi AAPLVertex ''texcoord'' = Some 16
    \<and> struct_sizeof abi AAPLVertex = 32"
proof -
  have "struct_sizeof abi AAPLVertex = 32"
    using assms by (simp add: struct_sizeof_def AAPLVertex_def align_up_def sizeof_float_def)
  moreover have "offsetof abi AAPLVertex ''texcoord'' = Some 16"
    using assms by (simp add: offsetof_def AAPLVertex_offsets align_up_def)
  moreover have "offsetof abi AAPLVertex ''position'' = Some 0"
    by (simp add: offsetof_def AAPLVertex_offsets)
  ultimately show ?thesis
    by (simp add: AAPLVertex_def sizeof_float_def)
qed

theorem AAPLVertex_layout_witness:
  "float3_align simd_abi = 16 \<and> float3_size simd_abi = 16
   \<and> offsetof simd_abi AAPLVertex ''position'' = Some 0
   \<and> offsetof simd_abi AAPLVertex ''texcoord'' = Some 16
   \<and> struct_sizeof simd_abi AAPLVertex = 32"
proof -
  have a: "float3_align simd_abi = 16" and s: "float3_size simd_abi = 16"
    by (simp_all add: simd_abi_def)
  from AAPLVertex_layout [OF a s] a s show ?thesis by simp
qed

text \<open>
  The claim as the spec words it, with \<open>texcoord\<close> at offset 12, fails on the platform's
  layout, where the 16-byte aligned vector of three floats has 16 bytes.
\<close>

theorem AAPLVertex_texcoord_not_at_12:
  "float3_align simd_abi = 16
   \<and> offsetof simd_abi AAPLVertex ''texcoord'' = Some 16
   \<and> offsetof simd_abi AAPLVertex ''texcoord'' \<noteq> Some 12"
  by (simp add: offsetof_def AAPLVertex_offsets align_up_def simd_abi_def)

text \<open>Rounding up: the result is not below the offset, and is a multiple of the alignment.\<close>

lemma align_up_ge:
  assumes "0 < a"
  shows "n \<le> align_up n a"
proof -
  have "n + a - 1 = (n + a - 1) div a * a + (n + a - 1) mod a"
    by simp
  moreover have "(n + a - 1) mod a < a"
    using assms by simp
  ultimately show ?thesis
    unfolding align_up_def using assms by linarith
qed

lemma align_up_dvd:
  "a dvd align_up n a"
  by (simp add: align_up_def)

lemma align_up_multiple:
  assumes "a dvd n"
  shows "align_up n a = n"
proof (cases "a = 0")
  case True
  with assms show ?thesis by (simp add: align_up_def)
next
  case False
  from assms obtain j where "n = a * j" ..
  then have k: "n = j * a" by (simp add: mult.commute)
  from False obtain b where b: "a = Suc b" by (cases a) simp_all
  have "n + a - 1 = b + j * a"
    by (simp add: k b)
  moreover have "(b + j * a) div a = j + b div a"
    using False by simp
  moreover have "b div a = 0"
    by (simp add: b)
  ultimately have "(n + a - 1) div a = j"
    by simp
  then show ?thesis
    by (simp add: align_up_def k)
qed

lemma AAPLUniforms_offsets:
  "layout abi 0 AAPLUniforms =
     [(''cameraPos'', 0),
      (''modelMatrix'', align_up (float3_size abi) 16),
      (''modelViewProjectionMatrix'', align_up (float3_size abi) 16 + 64),
      (''normalMatrix'', align_up (align_up (float3_size abi) 16 + 128) (float3_align abi))]"
proof -
  have "16 dvd align_up (float3_size abi) 16 + 64"
    by (simp add: align_up_dvd)
  then have "align_up (align_up (float3_size abi) 16 + 64) 16 = align_up (float3_size abi) 16 + 64"
    by (rule align_up_multiple)
  then show ?thesis
    by (simp add: AAPLUniforms_def align_up_0 sizeof_float_def Let_def add.assoc)
qed

lemma AAPLUniforms_end:
  "struct_end abi 0 AAPLUniforms =
     align_up (align_up (float3_size abi) 16 + 128) (float3_align abi) + 3 * float3_size abi"
proof -
  have "16 dvd align_up (float3_size abi) 16 + 64"
    by (simp add: align_up_dvd)
  then have "align_up (align_up (float3_size abi) 16 + 64) 16 = align_up (float3_size abi) 16 + 64"
    by (rule align_up_multiple)
  then show ?thesis
    by (simp add: AAPLUniforms_def align_up_0 sizeof_float_def add.assoc)
qed

lemma AAPLUniforms_alignof:
  "struct_alignof abi AAPLUniforms = max 16 (float3_align abi)"
  by (simp add: AAPLUniforms_def sizeof_float_def max_def)

text \<open>
  C2. In \<open>AAPLUniforms\<close> the members are \<open>cameraPos\<close>, \<open>modelMatrix\<close>,
  \<open>modelViewProjectionMatrix\<close>, \<open>normalMatrix\<close>, in this order; \<open>cameraPos\<close> is at
  offset 0; a 4x4 float matrix has 64 bytes; and the 3x3 float matrix has 48 bytes when
  each of its columns is padded to 16 bytes. The three matrices follow in memory in the
  declared order, whatever room the vector of three floats takes: \<open>modelMatrix\<close> begins
  at or after the end of \<open>cameraPos\<close>, \<open>modelViewProjectionMatrix\<close> begins exactly where
  \<open>modelMatrix\<close> ends, \<open>normalMatrix\<close> begins at or after the end of
  \<open>modelViewProjectionMatrix\<close> and ends inside the struct, and each begins at a multiple
  of its alignment.
\<close>

theorem AAPLUniforms_members:
  "map fst AAPLUniforms =
     [''cameraPos'', ''modelMatrix'', ''modelViewProjectionMatrix'', ''normalMatrix'']
   \<and> map snd AAPLUniforms =
     [vector_float3, matrix_float4x4, matrix_float4x4, matrix_float3x3]
   \<and> offsetof abi AAPLUniforms ''cameraPos'' = Some 0
   \<and> sizeof abi matrix_float4x4 = 64
   \<and> (float3_size abi = 16 \<longrightarrow> sizeof abi matrix_float3x3 = 48)
   \<and> (0 < float3_align abi \<longrightarrow>
        (\<exists>m v n. offsetof abi AAPLUniforms ''modelMatrix'' = Some m
           \<and> offsetof abi AAPLUniforms ''modelViewProjectionMatrix'' = Some v
           \<and> offsetof abi AAPLUniforms ''normalMatrix'' = Some n
           \<and> 0 + sizeof abi vector_float3 \<le> m
           \<and> m + sizeof abi matrix_float4x4 = v
           \<and> v + sizeof abi matrix_float4x4 \<le> n
           \<and> n + sizeof abi matrix_float3x3 \<le> struct_sizeof abi AAPLUniforms
           \<and> 16 dvd m \<and> 16 dvd v \<and> float3_align abi dvd n))"
proof -
  have first: "map fst AAPLUniforms =
     [''cameraPos'', ''modelMatrix'', ''modelViewProjectionMatrix'', ''normalMatrix'']
   \<and> map snd AAPLUniforms =
     [vector_float3, matrix_float4x4, matrix_float4x4, matrix_float3x3]
   \<and> offsetof abi AAPLUniforms ''cameraPos'' = Some 0
   \<and> sizeof abi matrix_float4x4 = 64
   \<and> (float3_size abi = 16 \<longrightarrow> sizeof abi matrix_float3x3 = 48)"
    by (simp add: AAPLUniforms_def offsetof_def align_up_0 sizeof_float_def)
  have order: "\<exists>m v n. offsetof abi AAPLUniforms ''modelMatrix'' = Some m
           \<and> offsetof abi AAPLUniforms ''modelViewProjectionMatrix'' = Some v
           \<and> offsetof abi AAPLUniforms ''normalMatrix'' = Some n
           \<and> 0 + sizeof abi vector_float3 \<le> m
           \<and> m + sizeof abi matrix_float4x4 = v
           \<and> v + sizeof abi matrix_float4x4 \<le> n
           \<and> n + sizeof abi matrix_float3x3 \<le> struct_sizeof abi AAPLUniforms
           \<and> 16 dvd m \<and> 16 dvd v \<and> float3_align abi dvd n"
    if pos: "0 < float3_align abi"
  proof -
    define m where "m = align_up (float3_size abi) 16"
    define n where "n = align_up (m + 128) (float3_align abi)"
    have 1: "float3_size abi \<le> m"
      unfolding m_def by (rule align_up_ge) simp
    have 2: "m + 128 \<le> n"
      unfolding n_def using pos by (rule align_up_ge)
    have 3: "n + 3 * float3_size abi \<le> struct_sizeof abi AAPLUniforms"
      unfolding struct_sizeof_def AAPLUniforms_end AAPLUniforms_alignof n_def m_def
      by (rule align_up_ge) simp
    have 4: "16 dvd m"
      unfolding m_def by (rule align_up_dvd)
    have 5: "float3_align abi dvd n"
      unfolding n_def by (rule align_up_dvd)
    have "offsetof abi AAPLUniforms ''modelMatrix'' = Some m"
      and "offsetof abi AAPLUniforms ''modelViewProjectionMatrix'' = Some (m + 64)"
      and "offsetof abi AAPLUniforms ''normalMatrix'' = Some n"
      by (simp_all add: offsetof_def AAPLUniforms_offsets m_def n_def)
    with 1 2 3 4 5 show ?thesis
      by (simp add: sizeof_float_def)
  qed
  from first order show ?thesis by blast
qed

theorem AAPLUniforms_members_witness:
  "float3_size simd_abi = 16
   \<and> 0 < float3_align simd_abi
   \<and> sizeof simd_abi matrix_float3x3 = 48
   \<and> sizeof simd_abi matrix_float4x4 = 64
   \<and> offsetof simd_abi AAPLUniforms ''cameraPos'' = Some 0
   \<and> (\<exists>m v n. offsetof simd_abi AAPLUniforms ''modelMatrix'' = Some m
           \<and> offsetof simd_abi AAPLUniforms ''modelViewProjectionMatrix'' = Some v
           \<and> offsetof simd_abi AAPLUniforms ''normalMatrix'' = Some n
           \<and> 0 + sizeof simd_abi vector_float3 \<le> m
           \<and> m + sizeof simd_abi matrix_float4x4 = v
           \<and> v + sizeof simd_abi matrix_float4x4 \<le> n
           \<and> n + sizeof simd_abi matrix_float3x3 \<le> struct_sizeof simd_abi AAPLUniforms
           \<and> 16 dvd m \<and> 16 dvd v \<and> float3_align simd_abi dvd n)"
proof -
  have s: "float3_size simd_abi = 16" and a: "0 < float3_align simd_abi"
    by (simp_all add: simd_abi_def)
  from AAPLUniforms_members [of simd_abi] s a show ?thesis
    by blast
qed

text \<open>
  C9. With \<open>cameraPos\<close>, a vector of three floats, in a 16-byte slot that is 16-byte
  aligned, the members of \<open>AAPLUniforms\<close> lie at the offsets 0, 16, 80 and 144, and the
  struct has 192 bytes: the stride of the per-shape uniform array of \<open>AAPLNumShapes\<close>
  entries, which then takes 16 * 192 = 3072 bytes.
\<close>

theorem AAPLUniforms_layout:
  assumes "float3_size abi = 16" and "float3_align abi = 16"
  shows "offsetof abi AAPLUniforms ''cameraPos'' = Some 0
    \<and> offsetof abi AAPLUniforms ''modelMatrix'' = Some 16
    \<and> offsetof abi AAPLUniforms ''modelViewProjectionMatrix'' = Some 80
    \<and> offsetof abi AAPLUniforms ''normalMatrix'' = Some 144
    \<and> struct_sizeof abi AAPLUniforms = 192
    \<and> AAPLNumShapes * int (struct_sizeof abi AAPLUniforms) = 3072"
proof -
  have "struct_sizeof abi AAPLUniforms = 192"
    using assms by (simp add: struct_sizeof_def AAPLUniforms_def align_up_def sizeof_float_def)
  then show ?thesis
    by (simp add: offsetof_def AAPLUniforms_offsets_16 [OF assms] AAPLNumShapes_def)
qed

theorem AAPLUniforms_layout_witness:
  "float3_size simd_abi = 16 \<and> float3_align simd_abi = 16
   \<and> offsetof simd_abi AAPLUniforms ''cameraPos'' = Some 0
   \<and> offsetof simd_abi AAPLUniforms ''modelMatrix'' = Some 16
   \<and> offsetof simd_abi AAPLUniforms ''modelViewProjectionMatrix'' = Some 80
   \<and> offsetof simd_abi AAPLUniforms ''normalMatrix'' = Some 144
   \<and> struct_sizeof simd_abi AAPLUniforms = 192"
proof -
  have s: "float3_size simd_abi = 16" and a: "float3_align simd_abi = 16"
    by (simp_all add: simd_abi_def)
  from AAPLUniforms_layout [OF s a] s a show ?thesis by simp
qed

end
